theory Spec2Isabelle
  imports
    Complex_Main
    "HOL-Library.Char_ord"
    "HOL-Library.List_Lexorder"
    "HOL-Library.Multiset"
    "HOL-Library.Sublist"
begin

section \<open>Strings\<close>

text \<open>
  Python strings are modelled as \<^typ>\<open>string\<close>, a list of 8-bit characters: an ASCII
  name is the list of its characters, any other name the list of its UTF-8 bytes.
  The comparison of two strings is lexicographic on the characters, as Python's is on
  code points. \<open>str.lower\<close> and \<open>int\<close> are modelled on ASCII.
\<close>

definition lower_char :: "char \<Rightarrow> char" where
  "lower_char c =
     (if CHR ''A'' \<le> c \<and> c \<le> CHR ''Z'' then char_of (of_char c + (32::nat)) else c)"

definition lower :: "string \<Rightarrow> string" where
  "lower s = map lower_char s"

text \<open>\<open>a in b\<close> on two strings: \<open>a\<close> occurs in \<open>b\<close> as a contiguous run.\<close>

fun py_in :: "string \<Rightarrow> string \<Rightarrow> bool" where
  "py_in p [] = (p = [])"
| "py_in p (c # cs) = (prefix p (c # cs) \<or> py_in p cs)"








section \<open>Listing renderer: filtering, sorting, paging\<close>

definition PAGE_SIZE :: int where
  "PAGE_SIZE = 20"


text \<open>
  The query string after \<open>parse_qs\<close> is a dictionary from a parameter name to the list
  of its values. \<open>parse_qs\<close> drops blank values and never stores an empty list, so a
  list of values is its first value together with the rest, and \<open>[0]\<close> on it is the
  first component. \<open>get_page\<close> is \<open>int(query_components.get('page', [1])[0])\<close> and
  \<open>get_search\<close> is \<open>query_components.get('search', [''])[0].lower()\<close>.
\<close>

type_synonym query = "string \<rightharpoonup> string \<times> string list"

definition first_value :: "query \<Rightarrow> string \<Rightarrow> string option" where
  "first_value q k = map_option fst (q k)"



text \<open>
  Python's \<open>entries[start:end]\<close> for \<open>0 \<le> start \<le> end\<close>: the elements from index
  \<open>start\<close> up to, not including, \<open>end\<close>, cut at the end of the list.
\<close>

definition slice :: "'a list \<Rightarrow> int \<Rightarrow> int \<Rightarrow> 'a list" where
  "slice xs start end = take (nat (end - start)) (drop (nat start) xs)"

definition filter_entries :: "string \<Rightarrow> string list \<Rightarrow> string list" where
  "filter_entries search entries =
     (if search \<noteq> [] then filter (\<lambda>entry. py_in search (lower entry)) entries
      else entries)"

definition sort_entries :: "string list \<Rightarrow> string list" where
  "sort_entries entries = sort_key lower entries"

record page_view =
  pv_entries :: "string list"
  pv_page :: int
  pv_total_pages :: int
  pv_search :: string

text \<open>
  Lines 401 to 410 of \<open>list_directory\<close>: from the names of the directory, the search
  term and the requested page to the arguments handed to \<open>generate_html_list\<close>.
\<close>

definition paginate :: "string list \<Rightarrow> string \<Rightarrow> int \<Rightarrow> page_view" where
  "paginate entries0 search page0 =
     (let entries = sort_entries (filter_entries search entries0);
          total_entries = int (length entries);
          total_pages = max 1 ((total_entries + PAGE_SIZE - 1) div PAGE_SIZE);
          page = max 1 (min page0 total_pages);
          start_idx = (page - 1) * PAGE_SIZE;
          end_idx = start_idx + PAGE_SIZE
      in \<lparr> pv_entries = slice entries start_idx end_idx,
           pv_page = page,
           pv_total_pages = total_pages,
           pv_search = search \<rparr>)"


section \<open>What a handler puts on the connection\<close>

text \<open>
  A handler acts on the connection through the methods of the base request handler. Its
  result is the list of these calls, in order. \<open>send_error\<close> is one call (the base class
  builds the error page).
\<close>

datatype event =
    Send_Response nat
  | Send_Header string string
  | End_Headers
  | Write string
  | Flush
  | Send_Error nat string

definition OK :: nat where "OK = 200"
definition BAD_REQUEST :: nat where "BAD_REQUEST = 400"
definition NOT_FOUND :: nat where "NOT_FOUND = 404"
definition INTERNAL_SERVER_ERROR :: nat where "INTERNAL_SERVER_ERROR = 500"

text \<open>The status of a response: the code of its first status line or error.\<close>

fun status_of :: "event list \<Rightarrow> nat option" where
  "status_of [] = None"
| "status_of (Send_Response c # _) = Some c"
| "status_of (Send_Error c _ # _) = Some c"
| "status_of (_ # es) = status_of es"

text \<open>The bytes written to the response body, in order.\<close>

fun body_chunks :: "event list \<Rightarrow> string list" where
  "body_chunks [] = []"
| "body_chunks (Write b # es) = b # body_chunks es"
| "body_chunks (_ # es) = body_chunks es"

section \<open>Content streamer\<close>

definition FILE_CHUNK_SIZE :: nat where
  "FILE_CHUNK_SIZE = 16 * 1024"

text \<open>
  The file behind a path, as the streamer sees it: whether \<open>is_file()\<close> holds, whether
  \<open>open\<close> succeeds (it raises \<open>IOError\<close> otherwise), the bytes of the file, and whether
  they decode as UTF-8 (reading in text mode raises \<open>UnicodeDecodeError\<close> otherwise).
\<close>

record disk_file =
  f_is_file :: bool
  f_open_ok :: bool
  f_data :: string
  f_utf8_ok :: bool

text \<open>
  The client: \<open>None\<close> reads the whole response; \<open>Some k\<close> disconnects after \<open>k\<close>
  chunks of the body, and the next \<open>wfile.write\<close> raises \<open>BrokenPipeError\<close>. That error
  is an \<open>OSError\<close>, so the \<open>except IOError\<close> clause takes it: the handler's
  \<open>send_error\<close> there writes to the broken connection, fails, and the failure is
  swallowed by the bare \<open>except\<close>: nothing more reaches the connection.
\<close>

type_synonym client = "nat option"

text \<open>
  The loop of \<open>_serve_file_content\<close>: \<open>f.read(FILE_CHUNK_SIZE)\<close> returns the next
  \<open>FILE_CHUNK_SIZE\<close> bytes of a regular file (fewer at its end, none after it); an empty
  chunk ends the loop. \<open>sent\<close> counts the chunks written so far.
\<close>

function stream_loop :: "client \<Rightarrow> nat \<Rightarrow> string \<Rightarrow> event list" where
  "stream_loop cl sent rest =
     (let chunk = take FILE_CHUNK_SIZE rest in
      if chunk = [] then []
      else if cl = Some sent then []
      else Write chunk # Flush # stream_loop cl (Suc sent) (drop FILE_CHUNK_SIZE rest))"
  by pat_completeness auto
termination
  by (relation "measure (\<lambda>(cl, sent, rest). length rest)")
     (auto simp: FILE_CHUNK_SIZE_def)

definition serve_file_content :: "disk_file \<Rightarrow> client \<Rightarrow> event list" where
  "serve_file_content f cl =
     (if \<not> f_is_file f then [Send_Error NOT_FOUND ''File not found'']
      else
        [Send_Response OK,
         Send_Header ''Content-type'' ''text/plain'',
         Send_Header ''Content-Encoding'' ''identity'',
         Send_Header ''Cache-Control'' ''no-cache'',
         End_Headers]
        @ (if \<not> f_open_ok f then [Send_Error NOT_FOUND ''File not found or read error'']
           else stream_loop cl 0 (f_data f)))"

text \<open>
  The server as configured: whether the \<open>markdown\<close> package was importable
  (\<open>MARKDOWN_AVAILABLE\<close>), what \<open>markdown.markdown\<close> returns for a text (\<open>None\<close>: it
  raises), and the two viewer templates, each a function of the file name and the raw
  URL. No property below depends on the text of the viewer templates.
\<close>

record server =
  MARKDOWN_AVAILABLE :: bool
  markdown_html :: "string \<Rightarrow> string option"
  code_view_frame :: "string \<Rightarrow> string \<Rightarrow> string option"
  markdown_viewer :: "string \<Rightarrow> string \<Rightarrow> string option"

definition serve_file_content_as_html :: "server \<Rightarrow> disk_file \<Rightarrow> event list" where
  "serve_file_content_as_html srv f =
     (if \<not> MARKDOWN_AVAILABLE srv then
        [Send_Error INTERNAL_SERVER_ERROR
           ''Markdown rendering not available. Please install the 'markdown' package.'']
      else if \<not> f_is_file f then [Send_Error NOT_FOUND ''File not found'']
      else if \<not> f_open_ok f then [Send_Error INTERNAL_SERVER_ERROR ''Error rendering Markdown'']
      else if \<not> f_utf8_ok f then [Send_Error BAD_REQUEST ''File encoding error'']
      else
        (case markdown_html srv (f_data f) of
           None \<Rightarrow> [Send_Error INTERNAL_SERVER_ERROR ''Error rendering Markdown'']
         | Some html_content \<Rightarrow>
             [Send_Response OK,
              Send_Header ''Content-type'' ''text/html; charset=utf-8'',
              Send_Header ''Cache-Control'' ''no-cache'',
              End_Headers,
              Write html_content]))"

text \<open>
  The request as \<open>handle_text_file\<close> reads it: the parsed query, the suffix and the name
  of the file path, and the request path before the \<open>?\<close> (\<open>raw_url\<close>).
\<close>

record text_request =
  query_components :: query
  suffix :: string
  file_name :: string
  raw_url :: string

definition handle_text_file :: "server \<Rightarrow> text_request \<Rightarrow> disk_file \<Rightarrow> client \<Rightarrow> event list" where
  "handle_text_file srv rq f cl =
     (if first_value (query_components rq) ''action'' = Some ''get_content'' then
        (let render_html = (first_value (query_components rq) ''render'' = Some ''html'') in
         if render_html \<and> MARKDOWN_AVAILABLE srv \<and> lower (suffix rq) = ''.md''
         then serve_file_content_as_html srv f
         else serve_file_content f cl)
      else
        (let file_extension = lower (suffix rq);
             html_content =
               (if file_extension = ''.md'' \<and> MARKDOWN_AVAILABLE srv
                then markdown_viewer srv (file_name rq) (raw_url rq)
                else code_view_frame srv (file_name rq) (raw_url rq))
         in case html_content of
              Some h \<Rightarrow>
                [Send_Response OK,
                 Send_Header ''Content-type'' ''text/html; charset=utf-8'',
                 End_Headers,
                 Write h]
            | None \<Rightarrow> [Send_Error INTERNAL_SERVER_ERROR ''Error generating code view'']))"

section \<open>Decimal numerals\<close>

text \<open>\<open>str(n)\<close> for a natural number: its decimal digits.\<close>

definition digit_char :: "nat \<Rightarrow> char" where
  "digit_char d = char_of (48 + d)"

function str_nat :: "nat \<Rightarrow> string" where
  "str_nat n = (if n < 10 then [digit_char n] else str_nat (n div 10) @ [digit_char (n mod 10)])"
  by pat_completeness auto
termination
  by (relation "measure (\<lambda>n. n)") auto

definition str_int :: "int \<Rightarrow> string" where
  "str_int i = (if i < 0 then CHR ''-'' # str_nat (nat (- i)) else str_nat (nat i))"

section \<open>Archive builder\<close>

text \<open>
  The file system as \<open>create_zip\<close> sees it: what is at a path. \<open>Other\<close> is a file or
  directory that this call did not write. \<open>Archive ms closed\<close> is a zip file with the
  members \<open>ms\<close> (archive name and content) written so far, \<open>closed\<close> once \<open>close()\<close> has
  written the end record. The archive of a directory is complete when it holds every
  regular file under it and is closed.
\<close>

datatype node = Other | Archive "(string \<times> string) list" bool

type_synonym fs = "string \<rightharpoonup> node"

text \<open>
  Where a call may raise: before \<open>temp_zip_path\<close> is assigned (\<open>Fail_Path\<close>), in
  \<open>ZipFile(temp_zip_path, 'w')\<close> (\<open>Fail_Open\<close>), in the loop over \<open>rglob\<close> after \<open>k\<close>
  members were written (\<open>Fail_Write k\<close>), in the \<open>close()\<close> that ends the \<open>with\<close> block
  after all members were written (\<open>Fail_Close\<close>), or in \<open>shutil.move\<close> (\<open>Fail_Move\<close>).
  The \<open>unlink\<close> of the handler may raise too (\<open>unlink_fails\<close>); that error is caught
  and logged.
\<close>

datatype fault = No_Fault | Fail_Path | Fail_Open | Fail_Write nat | Fail_Close | Fail_Move

text \<open>
  One call of \<open>create_zip\<close>: the regular files under \<open>directory\<close> as \<open>rglob\<close> yields
  them (name relative to \<open>directory\<close>, content), the fault of this call, whether
  \<open>unlink\<close> fails, and the process id.
\<close>

record zip_run =
  files :: "(string \<times> string) list"
  fault :: fault
  unlink_fails :: bool
  pid :: nat

text \<open>\<open>zip_path.with_suffix(zip_path.suffix + f".tmp_{os.getpid()}")\<close>.\<close>

definition temp_zip_path :: "string \<Rightarrow> nat \<Rightarrow> string" where
  "temp_zip_path zip_name p = zip_name @ ''.tmp_'' @ str_nat p"

text \<open>
  The states of the file system while the \<open>with ZipFile\<close> block writes the first \<open>n\<close>
  members: the temporary file is created empty, then grows by one member at a time.
\<close>

definition writing :: "fs \<Rightarrow> string \<Rightarrow> (string \<times> string) list \<Rightarrow> nat \<Rightarrow> fs list" where
  "writing s tmp ms n = map (\<lambda>k. s(tmp \<mapsto> Archive (take k ms) False)) [0 ..< Suc n]"

text \<open>
  The exception handler: \<open>temp_zip_path.exists()\<close>, then \<open>unlink()\<close>; the result is
  \<open>False\<close> whether or not the unlink succeeds. \<open>tr\<close> is the list of the states so far,
  the last one the current state.
\<close>

definition cleanup :: "zip_run \<Rightarrow> string \<Rightarrow> fs list \<Rightarrow> fs list \<times> bool" where
  "cleanup run tmp tr =
     (let s = last tr in
      if s tmp \<noteq> None \<and> \<not> unlink_fails run then (tr @ [s(tmp := None)], False)
      else (tr, False))"

text \<open>
  \<open>create_zip\<close> returns the states the file system goes through, the first one the
  state at the call and the last one the state at the return, and its result.
\<close>

definition create_zip :: "zip_run \<Rightarrow> fs \<Rightarrow> string \<Rightarrow> fs list \<times> bool" where
  "create_zip run s zip_name =
     (if s zip_name \<noteq> None then ([s], True)
      else
        (let tmp = temp_zip_path zip_name (pid run); ms = files run in
         case fault run of
           Fail_Path \<Rightarrow> ([s], False)
         | Fail_Open \<Rightarrow> cleanup run tmp [s]
         | Fail_Write k \<Rightarrow>
             (let n = min k (length ms) in
              cleanup run tmp (s # writing s tmp ms n @ [s(tmp \<mapsto> Archive (take n ms) True)]))
         | Fail_Close \<Rightarrow> cleanup run tmp (s # writing s tmp ms (length ms))
         | Fail_Move \<Rightarrow>
             cleanup run tmp (s # writing s tmp ms (length ms) @ [s(tmp \<mapsto> Archive ms True)])
         | No_Fault \<Rightarrow>
             (s # writing s tmp ms (length ms) @ [s(tmp \<mapsto> Archive ms True)]
                @ [s(zip_name \<mapsto> Archive ms True, tmp := None)],
              True)))"

section \<open>Size cache\<close>

text \<open>
  \<open>_cached_get_directory_size\<close> is a method under \<open>functools.lru_cache(maxsize=128)\<close>:
  the key of an entry is the tuple of all arguments of the call, \<open>self\<close> included, and
  a request handler is hashed and compared by identity. A handler is modelled by a
  number that identifies the instance; the server makes one instance per request.
  The cache is the list of its entries, the most recently used first.
\<close>

type_synonym handler = nat
type_synonym cache_key = "handler \<times> string \<times> int"

text \<open>
  The directory tree as the two functions read it: the modification time of a path
  (\<open>None\<close>: \<open>stat\<close> raises \<open>OSError\<close>), its resolved absolute path, and the sum of the
  sizes of the regular files under it, which the recursive walk computes.
\<close>

record tree_view =
  stat_mtime :: "string \<Rightarrow> int option"
  resolved :: "string \<Rightarrow> string"
  walk_total :: "string \<Rightarrow> int"

text \<open>The cache and the number of recursive walks made so far.\<close>

record cache_state =
  lru :: "(cache_key \<times> int) list"
  walks :: nat

definition cached_get_directory_size ::
    "tree_view \<Rightarrow> handler \<Rightarrow> string \<Rightarrow> int \<Rightarrow> cache_state \<Rightarrow> int \<times> cache_state" where
  "cached_get_directory_size tv self path mtime st =
     (let key = (self, path, mtime) in
      case map_of (lru st) key of
        Some total_size \<Rightarrow>
          (total_size, st\<lparr>lru := (key, total_size) # filter (\<lambda>e. fst e \<noteq> key) (lru st)\<rparr>)
      | None \<Rightarrow>
          (let total_size = walk_total tv path in
           (total_size,
            \<lparr>lru = take 128 ((key, total_size) # lru st), walks = Suc (walks st)\<rparr>)))"

definition get_directory_size ::
    "tree_view \<Rightarrow> handler \<Rightarrow> string \<Rightarrow> cache_state \<Rightarrow> int \<times> cache_state" where
  "get_directory_size tv self path st =
     (case stat_mtime tv path of
        None \<Rightarrow> (0, st)
      | Some mtime \<Rightarrow> cached_get_directory_size tv self (resolved tv path) mtime st)"

section \<open>Listing renderer: the page\<close>

text \<open>
  Every character of the page carries its origin: \<open>Fixed\<close> when it is text of the
  program or a size, a date or the encoding name, which the server computes from the file
  system; \<open>Display_Name\<close> and \<open>Link_Name\<close> when it comes from the name of a directory
  entry, through \<open>displayname\<close> and through \<open>linkname\<close>; \<open>Query\<close> when it comes from
  the query string (the search term, the page number). \<open>plain\<close> forgets the origins: it
  is the page as it is sent.
\<close>

datatype origin = Fixed | Display_Name | Link_Name | Query

type_synonym html = "(char \<times> origin) list"

definition fixed :: "string \<Rightarrow> html" where
  "fixed s = map (\<lambda>c. (c, Fixed)) s"

definition mark :: "origin \<Rightarrow> string \<Rightarrow> html" where
  "mark w s = map (\<lambda>c. (c, w)) s"

definition plain :: "html \<Rightarrow> string" where
  "plain h = map fst h"

text \<open>
  \<open>s.replace(c, r)\<close> for a single character \<open>c\<close>; the characters of \<open>r\<close> take the
  origin of the character they replace. \<open>html.escape(s, quote)\<close> is the chain of
  replacements of the standard library, in its order.
\<close>

definition replace :: "char \<Rightarrow> string \<Rightarrow> html \<Rightarrow> html" where
  "replace c r h = concat (map (\<lambda>(x, w). if x = c then map (\<lambda>y. (y, w)) r else [(x, w)]) h)"

definition escape :: "bool \<Rightarrow> html \<Rightarrow> html" where
  \<open>escape quote_too s0 =
     (let s1 = replace (CHR ''&'') ''&amp;'' s0;
          s2 = replace (CHR ''<'') ''&lt;'' s1;
          s3 = replace (CHR ''>'') ''&gt;'' s2
      in if quote_too
         then replace (CHR 0x27) ''&#x27;'' (replace (CHR ''"'') ''&quot;'' s3)
         else s3)\<close>

text \<open>
  \<open>urllib.parse.quote(s)\<close> with its default \<open>safe='/'\<close>: letters, digits and
  \<open>_.-~/\<close> stay, every other byte becomes \<open>%XX\<close> in upper-case hexadecimal.
\<close>

definition always_safe :: "char \<Rightarrow> bool" where
  "always_safe c =
     ((CHR ''A'' \<le> c \<and> c \<le> CHR ''Z'') \<or> (CHR ''a'' \<le> c \<and> c \<le> CHR ''z'')
      \<or> (CHR ''0'' \<le> c \<and> c \<le> CHR ''9'') \<or> c \<in> set ''_.-~'')"

definition hex_digit :: "nat \<Rightarrow> char" where
  "hex_digit d = (if d < 10 then char_of (48 + d) else char_of (55 + d))"

definition quote :: "html \<Rightarrow> html" where
  "quote h =
     concat (map (\<lambda>(c, w).
        if always_safe c \<or> c = CHR ''/'' then [(c, w)]
        else map (\<lambda>y. (y, w))
               [CHR ''%'', hex_digit (of_char c div 16), hex_digit (of_char c mod 16)]) h)"

text \<open>
  The extension that \<open>os.path.splitext\<close> returns: from the last dot of the last path
  component, leading dots of the component not counted; empty when there is none.
\<close>

definition splitext_ext :: "string \<Rightarrow> string" where
  "splitext_ext p =
     (let base = rev (takeWhile (\<lambda>c. c \<noteq> CHR ''/'') (rev p));
          name = dropWhile (\<lambda>c. c = CHR ''.'') base
      in if CHR ''.'' \<in> set name
         then CHR ''.'' # rev (takeWhile (\<lambda>c. c \<noteq> CHR ''.'') (rev name))
         else [])"

definition previewable_extensions :: "string list" where
  "previewable_extensions =
     [''.txt'', ''.csv'', ''.log'', ''.md'', ''.json'', ''.xml'',
      ''.yaml'', ''.yml'', ''.ini'', ''.cfg'',
      ''.py'', ''.js'', ''.html'', ''.css'', ''.java'', ''.c'', ''.cpp'', ''.h'', ''.cs'',
      ''.rb'', ''.php'', ''.go'', ''.swift'', ''.ts'', ''.sh'', ''.bash'', ''.sql'']"

text \<open>
  The templates. The labels of the page are Chinese; their UTF-8 bytes are written out.
  \<open>DIRECTORY_LIST_TEMPLATE_0\<close> to \<open>_4\<close> are the pieces of \<open>DIRECTORY_LIST_TEMPLATE\<close>
  between its fields \<open>{charset}\<close>, \<open>{title}\<close>, \<open>{title}\<close> and \<open>{escaped_search}\<close>, with
  the doubled braces of \<open>str.format\<close> single.
\<close>

definition DIRECTORY_LIST_TEMPLATE_0 :: string where
  \<open>DIRECTORY_LIST_TEMPLATE_0 =
     ''<!DOCTYPE HTML>\<newline>''
     @ ''<html>\<newline>''
     @ ''<head>\<newline>''
     @ ''    <meta http-equiv="Content-Type" content="text/html; charset=''\<close>

definition DIRECTORY_LIST_TEMPLATE_1 :: string where
  \<open>DIRECTORY_LIST_TEMPLATE_1 =
     ''">\<newline>''
     @ ''    <title>''\<close>

definition DIRECTORY_LIST_TEMPLATE_2 :: string where
  \<open>DIRECTORY_LIST_TEMPLATE_2 =
     ''</title>\<newline>''
     @ ''    <meta name="viewport" content="width=device-width, initial-scale=1.0">\<newline>''
     @ ''    <style>\<newline>''
     @ ''        :root { --primary-color: #007BFF; --hover-color: #0056b3; --header-bg: #343a40; --item-bg: #ffffff; --text-color: #333; --secondary-text: #6c757d; --action-color: #28a745; --action-hover: #1e7e34; --border-color: #dee2e6; --shadow: rgba(0,0,0,0.1); }\<newline>''
     @ ''        body { font-family: -apple-system, BlinkMacSystemFont, "Segoe UI", Roboto, "Helvetica Neue", Arial, sans-serif; background-color: #f8f9fa; margin: 0; padding: 20px; }\<newline>''
     @ ''        h1 { font-size: 1.5rem; text-align: center; color: var(--text-color); margin-bottom: 1.5rem; }\<newline>''
     @ ''        .search { text-align: center; margin-bottom: 1.5rem; }\<newline>''
     @ ''        .search input[type="text"] { padding: 0.5rem; width: calc(100% - 220px); max-width: 300px; border: 1px solid #ccc; border-radius: 4px; }\<newline>''
     @ ''        .search input[type="submit"] { padding: 0.5rem 1rem; background-color: var(--primary-color); color: white; border: none; border-radius: 4px; cursor: pointer; margin-left: 5px; }\<newline>''
     @ ''        .search input[type="submit"]:hover { background-color: var(--hover-color); }\<newline>''
     @ ''        ul { list-style-type: none; padding: 0; width: 95%; max-width: 1200px; margin: 0 auto; }\<newline>''
     @ ''        li { display: flex; justify-content: space-between; align-items: center; background-color: var(--item-bg); padding: 0.75rem 1rem; margin-bottom: 0.5rem; border-radius: 6px; box-shadow: 0 1px 3px var(--shadow); transition: box-shadow 0.2s; }\<newline>''
     @ ''        li:hover { box-shadow: 0 2px 5px rgba(0,0,0,0.15); }\<newline>''
     @ ''        li.header { background-color: var(--header-bg); color: white; font-weight: bold; box-shadow: none; }\<newline>''
     @ ''        li.header span { color: white; }\<newline>''
     @ ''        a { text-decoration: none; color: var(--primary-color); font-weight: 500; }\<newline>''
     @ ''        a:hover { text-decoration: underline; }\<newline>''
     @ ''        .size, .date { color: var(--secondary-text); font-size: 0.875rem; }\<newline>''
     @ ''        .actions { color: var(--action-color); }\<newline>''
     @ ''        .actions a { color: var(--action-color); margin: 0 5px; font-size: 0.875rem; }\<newline>''
     @ ''        .actions a:hover { color: var(--action-hover); }\<newline>''
     @ ''        .pagination { text-align: center; margin: 2rem 0; }\<newline>''
     @ ''        .pagination a, .pagination span { display: inline-block; padding: 0.5rem 0.75rem; margin: 0 0.25rem; text-decoration: none; color: var(--primary-color); border: 1px solid var(--border-color); border-radius: 4px; }\<newline>''
     @ ''        .pagination a:hover { background-color: #e9ecef; }\<newline>''
     @ ''        .pagination .current { background-color: var(--primary-color); color: white; border-color: var(--primary-color); }\<newline>''
     @ ''        .pagination .disabled { color: var(--secondary-text); cursor: not-allowed; border-color: var(--border-color); }\<newline>''
     @ ''        .back-link { display: block; text-align: center; margin-top: 1.5rem; }\<newline>''
     @ ''        @media (max-width: 768px) {\<newline>''
     @ ''            ul { width: 100%; }\<newline>''
     @ ''            li { flex-direction: column; align-items: flex-start; }\<newline>''
     @ ''            .size, .date, .actions { width: 100%; margin-top: 0.25rem; }\<newline>''
     @ ''            .search input[type="text"] { width: 70%; margin-bottom: 0.5rem; }\<newline>''
     @ ''        }\<newline>''
     @ ''    </style>\<newline>''
     @ ''</head>\<newline>''
     @ ''<body>\<newline>''
     @ ''    <h1>''\<close>

definition DIRECTORY_LIST_TEMPLATE_3 :: string where
  \<open>DIRECTORY_LIST_TEMPLATE_3 =
     ''</h1>\<newline>''
     @ ''    <div class="search">\<newline>''
     @ ''        <form method="get">\<newline>''
     @ ''            <input type="text" name="search" value="''\<close>

definition DIRECTORY_LIST_TEMPLATE_4 :: string where
  \<open>DIRECTORY_LIST_TEMPLATE_4 =
     ''" placeholder="''
     @ [CHR 0xE6, CHR 0x90, CHR 0x9C, CHR 0xE7, CHR 0xB4, CHR 0xA2, CHR 0xE6, CHR 0x96, CHR 0x87, CHR 0xE4, CHR 0xBB, CHR 0xB6]
     @ ''/''
     @ [CHR 0xE6, CHR 0x96, CHR 0x87, CHR 0xE4, CHR 0xBB, CHR 0xB6, CHR 0xE5, CHR 0xA4, CHR 0xB9]
     @ ''...">\<newline>''
     @ ''            <input type="submit" value="''
     @ [CHR 0xE6, CHR 0x90, CHR 0x9C, CHR 0xE7, CHR 0xB4, CHR 0xA2]
     @ ''">\<newline>''
     @ ''        </form>\<newline>''
     @ ''    </div>\<newline>''
     @ ''    <ul>\<newline>''
     @ ''        <li class="header">\<newline>''
     @ ''            <span>''
     @ [CHR 0xE5, CHR 0x90, CHR 0x8D, CHR 0xE7, CHR 0xA7, CHR 0xB0]
     @ ''</span>\<newline>''
     @ ''            <span class="size">''
     @ [CHR 0xE5, CHR 0xA4, CHR 0xA7, CHR 0xE5, CHR 0xB0, CHR 0x8F]
     @ ''</span>\<newline>''
     @ ''            <span class="date">''
     @ [CHR 0xE4, CHR 0xBF, CHR 0xAE, CHR 0xE6, CHR 0x94, CHR 0xB9, CHR 0xE6, CHR 0x97, CHR 0xA5, CHR 0xE6, CHR 0x9C, CHR 0x9F]
     @ ''</span>\<newline>''
     @ ''            <span class="actions">''
     @ [CHR 0xE6, CHR 0x93, CHR 0x8D, CHR 0xE4, CHR 0xBD, CHR 0x9C]
     @ ''</span>\<newline>''
     @ ''        </li>\<newline>''
     @ ''        <li><a href="..">[''
     @ [CHR 0xE8, CHR 0xBF, CHR 0x94, CHR 0xE5, CHR 0x9B, CHR 0x9E, CHR 0xE4, CHR 0xB8, CHR 0x8A, CHR 0xE7, CHR 0xBA, CHR 0xA7, CHR 0xE7, CHR 0x9B, CHR 0xAE, CHR 0xE5, CHR 0xBD, CHR 0x95]
     @ '']</a></li>\<newline>''\<close>

definition DIRECTORY_LIST_TEMPLATE :: "html \<Rightarrow> html \<Rightarrow> html \<Rightarrow> html" where
  "DIRECTORY_LIST_TEMPLATE charset title escaped_search =
     fixed DIRECTORY_LIST_TEMPLATE_0 @ charset
     @ fixed DIRECTORY_LIST_TEMPLATE_1 @ title
     @ fixed DIRECTORY_LIST_TEMPLATE_2 @ title
     @ fixed DIRECTORY_LIST_TEMPLATE_3 @ escaped_search
     @ fixed DIRECTORY_LIST_TEMPLATE_4"

definition DIRECTORY_LIST_FOOTER_0 :: string where
  \<open>DIRECTORY_LIST_FOOTER_0 =
     ''</ul>\<newline>''
     @ ''<div class="pagination">''\<close>

definition DIRECTORY_LIST_FOOTER_1 :: string where
  \<open>DIRECTORY_LIST_FOOTER_1 =
     ''</div>\<newline>''
     @ ''<div class="back-link"><a href="/">''
     @ [CHR 0xE5, CHR 0x9B, CHR 0x9E, CHR 0xE5, CHR 0x88, CHR 0xB0, CHR 0xE6, CHR 0xA0, CHR 0xB9, CHR 0xE7, CHR 0x9B, CHR 0xAE, CHR 0xE5, CHR 0xBD, CHR 0x95]
     @ ''</a></div>\<newline>''
     @ ''</body></html>''\<close>

definition DIRECTORY_LIST_FOOTER :: "html \<Rightarrow> html" where
  "DIRECTORY_LIST_FOOTER pagination_links =
     fixed DIRECTORY_LIST_FOOTER_0 @ pagination_links @ fixed DIRECTORY_LIST_FOOTER_1"

definition title :: string where
  \<open>title = [CHR 0xE6, CHR 0x96, CHR 0x87, CHR 0xE4, CHR 0xBB, CHR 0xB6, CHR 0xE5, CHR 0x85, CHR 0xB1, CHR 0xE4, CHR 0xBA, CHR 0xAB, CHR 0xE7, CHR 0x9B, CHR 0xAE, CHR 0xE5, CHR 0xBD, CHR 0x95, CHR 0xE7, CHR 0xB4, CHR 0xA2, CHR 0xE5, CHR 0xBC, CHR 0x95]\<close>

definition generate_directory_entry :: "html \<Rightarrow> html \<Rightarrow> html \<Rightarrow> html \<Rightarrow> html" where
  \<open>generate_directory_entry linkname displayname size_str mod_time_str =
     (let safe_linkname = escape True linkname;
          safe_displayname = escape False displayname
      in fixed ''<li><a href="'' @ safe_linkname @ fixed ''/">'' @ safe_displayname
         @ fixed ''/</a>''
         @ fixed ''<span class="size">'' @ size_str @ fixed ''</span>''
         @ fixed ''<span class="date">'' @ mod_time_str @ fixed ''</span>''
         @ fixed ''<span class="actions"><a href="'' @ safe_linkname
         @ fixed (''.zip">''
          @ [CHR 0xE4, CHR 0xB8, CHR 0x8B, CHR 0xE8, CHR 0xBD, CHR 0xBD]
          @ '' (ZIP)</a></span></li>''))\<close>

definition generate_file_entry :: "html \<Rightarrow> html \<Rightarrow> html \<Rightarrow> html \<Rightarrow> html" where
  \<open>generate_file_entry linkname displayname size_str mod_time_str =
     (let safe_linkname = escape True linkname;
          safe_displayname = escape False displayname;
          ext = splitext_ext (lower (plain displayname));
          preview_link_html =
            (if ext \<in> set previewable_extensions
             then fixed '' <a href="'' @ safe_linkname
                  @ fixed (''" target="_blank">''
          @ [CHR 0xE9, CHR 0xA2, CHR 0x84, CHR 0xE8, CHR 0xA7, CHR 0x88]
          @ ''</a>'')
             else [])
      in fixed ''<li><a href="'' @ safe_linkname @ fixed ''">'' @ safe_displayname
         @ fixed ''</a>''
         @ fixed ''<span class="size">'' @ size_str @ fixed ''</span>''
         @ fixed ''<span class="date">'' @ mod_time_str @ fixed ''</span>''
         @ fixed ''<span class="actions"><a href="'' @ safe_linkname
         @ fixed (''" download>''
          @ [CHR 0xE4, CHR 0xB8, CHR 0x8B, CHR 0xE8, CHR 0xBD, CHR 0xBD]
          @ ''</a>'') @ preview_link_html
         @ fixed ''</span></li>'')\<close>

text \<open>
  What the loop of \<open>generate_html_list\<close> reads from the file system for a name:
  whether it is a directory, and the two strings it formats, the size
  (\<open>human_readable_size\<close> of the file size or of \<open>get_directory_size\<close>, or \<open>N/A\<close>)
  and the modification time (\<open>strftime\<close>, or \<open>N/A\<close>). Number formatting and the file
  system are outside the model: the strings are given.
\<close>

record entry_info =
  e_is_dir :: bool
  e_size_str :: string
  e_mod_time_str :: string

definition generate_row :: "(string \<Rightarrow> entry_info) \<Rightarrow> string \<Rightarrow> html" where
  "generate_row info name =
     (let displayname = mark Display_Name name; linkname = mark Link_Name name;
          mod_time_str = fixed (e_mod_time_str (info name));
          size_str = fixed (e_size_str (info name))
      in if e_is_dir (info name)
         then generate_directory_entry linkname displayname size_str mod_time_str
         else generate_file_entry linkname displayname size_str mod_time_str)"

text \<open>
  The link \<open><a href="?page={p}&search={quote(search)}">{label}</a>\<close> and the other
  pieces of the pagination bar.
\<close>

definition page_link :: "int \<Rightarrow> html \<Rightarrow> html \<Rightarrow> html" where
  \<open>page_link p search label =
     fixed ''<a href="?page='' @ mark Query (str_int p) @ fixed ''&search='' @ quote search
     @ fixed ''">'' @ label @ fixed ''</a>''\<close>

definition label_previous :: string where
  \<open>label_previous = ''&laquo; ''
     @ [CHR 0xE4, CHR 0xB8, CHR 0x8A, CHR 0xE4, CHR 0xB8, CHR 0x80, CHR 0xE9, CHR 0xA1, CHR 0xB5]\<close>

definition label_next :: string where
  \<open>label_next = [CHR 0xE4, CHR 0xB8, CHR 0x8B, CHR 0xE4, CHR 0xB8, CHR 0x80, CHR 0xE9, CHR 0xA1, CHR 0xB5]
     @ '' &raquo;''\<close>

definition generate_pagination :: "int \<Rightarrow> int \<Rightarrow> html \<Rightarrow> html" where
  \<open>generate_pagination page total_pages search =
     (let start_page = max 1 (page - 2);
          end_page = min total_pages (page + 2)
      in (if page > 1 then page_link (page - 1) search (fixed label_previous)
          else fixed ''<span class="disabled">'' @ fixed label_previous @ fixed ''</span>'')
         @ (if start_page > 1
            then page_link 1 search (fixed ''1'')
                 @ (if start_page > 2 then fixed ''<span>...</span>'' else [])
            else [])
         @ concat (map (\<lambda>p.
              if p = page
              then fixed ''<span class="current">'' @ mark Query (str_int p) @ fixed ''</span>''
              else page_link p search (mark Query (str_int p))) [start_page .. end_page])
         @ (if end_page < total_pages
            then (if end_page < total_pages - 1 then fixed ''<span>...</span>'' else [])
                 @ page_link total_pages search (mark Query (str_int total_pages))
            else [])
         @ (if page < total_pages then page_link (page + 1) search (fixed label_next)
            else fixed ''<span class="disabled">'' @ fixed label_next @ fixed ''</span>''))\<close>

text \<open>
  \<open>generate_html_list\<close>: \<open>enc\<close> is \<open>sys.getfilesystemencoding()\<close>. The \<open>displaypath\<close>
  that the function computes first is not used in the page.
\<close>

definition generate_html_list ::
    "string \<Rightarrow> (string \<Rightarrow> entry_info) \<Rightarrow> string list \<Rightarrow> int \<Rightarrow> int \<Rightarrow> string \<Rightarrow> html" where
  "generate_html_list enc info entries page total_pages search =
     DIRECTORY_LIST_TEMPLATE (fixed enc) (escape True (fixed title))
       (escape True (mark Query search))
     @ concat (map (generate_row info) entries)
     @ DIRECTORY_LIST_FOOTER (generate_pagination page total_pages (mark Query search))"


section \<open>Markup in a page\<close>

text \<open>
  \<open>input_markup h\<close>: some character of \<open>h\<close> that comes from the input would be read as
  markup. That is a raw \<open><\<close> or \<open>>\<close> from a name or from the query string, or a raw
  double or single quote from a link name or from the query string, which the page
  writes inside attribute values.
\<close>

fun from_input :: "origin \<Rightarrow> bool" where
  "from_input Fixed = False"
| "from_input _ = True"

fun in_attribute :: "origin \<Rightarrow> bool" where
  "in_attribute Link_Name = True"
| "in_attribute Query = True"
| "in_attribute _ = False"

fun unsafe :: "char \<times> origin \<Rightarrow> bool" where
  \<open>unsafe (c, w) =
     (from_input w \<and> (c = CHR ''<'' \<or> c = CHR ''>'')
      \<or> in_attribute w \<and> (c = CHR ''"'' \<or> c = CHR 0x27))\<close>

definition input_markup :: "html \<Rightarrow> bool" where
  "input_markup h = list_ex unsafe h"

text \<open>
  \<open>tags_closed s\<close>: every \<open><\<close> of \<open>s\<close> is followed, inside \<open>s\<close>, by text that is
  not \<open>sc\<close>: by a character other than \<open>s\<close>, or by \<open>s\<close> and a character other than
  \<open>c\<close>. Such a string holds no \<open><script\<close>, and what is appended to it cannot complete
  one.
\<close>

fun follows :: "string \<Rightarrow> bool" where
  "follows [] = False"
| "follows [d] = (d \<noteq> CHR ''s'')"
| "follows (d # e # _) = (d \<noteq> CHR ''s'' \<or> e \<noteq> CHR ''c'')"

fun tags_closed :: "string \<Rightarrow> bool" where
  "tags_closed [] = True"
| "tags_closed (c # cs) = ((c \<noteq> CHR ''<'' \<or> follows cs) \<and> tags_closed cs)"


section \<open>Properties of the listing renderer\<close>








text \<open>
  C7 (as stated): filtering \<open>["Test.txt", "alpha", "TABLE.csv"]\<close> with the term \<open>"t"\<close>
  lists \<open>["Test.txt", "TABLE.csv"]\<close> in that order. The listing is sorted on the lowercase
  names, and \<open>"table.csv"\<close> comes before \<open>"test.txt"\<close>: the stated order is not the one
  the code returns.
\<close>

theorem search_example_order_counterexample:
  "pv_entries (paginate [''Test.txt'', ''alpha'', ''TABLE.csv''] ''t'' 1)
     \<noteq> [''Test.txt'', ''TABLE.csv'']"
  by code_simp

text \<open>
  C7 (amended): filtering \<open>["Test.txt", "alpha", "TABLE.csv"]\<close> with the term \<open>"t"\<close> keeps
  exactly \<open>"Test.txt"\<close> and \<open>"TABLE.csv"\<close>, the entries whose lowercase name contains
  \<open>"t"\<close>, and the listing returns them sorted on the lowercase name:
  \<open>["TABLE.csv", "Test.txt"]\<close>.
\<close>

theorem search_example_sorted:
  "filter_entries ''t'' [''Test.txt'', ''alpha'', ''TABLE.csv''] = [''Test.txt'', ''TABLE.csv'']
   \<and> pv_entries (paginate [''Test.txt'', ''alpha'', ''TABLE.csv''] ''t'' 1)
       = [''TABLE.csv'', ''Test.txt'']"
  by code_simp

section \<open>Properties of the content streamer\<close>

declare stream_loop.simps [simp del]

lemma FILE_CHUNK_SIZE_pos: "0 < FILE_CHUNK_SIZE"
  by (simp add: FILE_CHUNK_SIZE_def)

lemma take_chunk_empty: "take FILE_CHUNK_SIZE rest = [] \<longleftrightarrow> rest = []"
  using FILE_CHUNK_SIZE_pos by (cases rest) auto

lemma stream_loop_Nil: "stream_loop cl k [] = []"
  by (subst stream_loop.simps) simp

lemma stream_loop_step:
  "rest \<noteq> [] \<Longrightarrow> stream_loop None k rest =
     Write (take FILE_CHUNK_SIZE rest) # Flush # stream_loop None (Suc k) (drop FILE_CHUNK_SIZE rest)"
  using FILE_CHUNK_SIZE_pos by (subst stream_loop.simps) (simp add: Let_def take_chunk_empty)

lemma stream_loop_concat: "concat (body_chunks (stream_loop None k rest)) = rest"
proof (induction "length rest" arbitrary: k rest rule: less_induct)
  case less
  show ?case
  proof (cases "rest = []")
    case True
    then show ?thesis by (simp add: stream_loop_Nil)
  next
    case False
    then have "length (drop FILE_CHUNK_SIZE rest) < length rest"
      using FILE_CHUNK_SIZE_pos by simp
    then have "concat (body_chunks (stream_loop None (Suc k) (drop FILE_CHUNK_SIZE rest)))
        = drop FILE_CHUNK_SIZE rest"
      by (rule less)
    then show ?thesis
      using False by (simp add: stream_loop_step)
  qed
qed


lemma ceil_div_step:
  fixes n c :: nat
  assumes "0 < c" and "0 < n"
  shows "(n + c - 1) div c = Suc ((n - c + c - 1) div c)"
proof (cases "n \<le> c")
  case True
  with assms have e: "n + c - 1 = (n - 1) + c" by linarith
  from True assms have l: "n - 1 < c" by linarith
  from True assms have z: "n - c + c - 1 < c" by linarith
  have "(n - 1 + c) div c = Suc ((n - 1) div c)"
    using assms(1) by simp
  with l z show ?thesis unfolding e by (simp only: div_less)
next
  case False
  define m where "m = n - c + c - 1"
  from False assms have "n + c - 1 = m + c" unfolding m_def by linarith
  then have "(n + c - 1) div c = (m + c) div c" by simp
  also have "\<dots> = Suc (m div c)" using assms(1) by simp
  finally show ?thesis unfolding m_def .
qed

lemma chunk_count_step:
  assumes "rest \<noteq> []"
  shows "(length rest + FILE_CHUNK_SIZE - 1) div FILE_CHUNK_SIZE
       = Suc ((length (drop FILE_CHUNK_SIZE rest) + FILE_CHUNK_SIZE - 1) div FILE_CHUNK_SIZE)"
  using ceil_div_step [OF FILE_CHUNK_SIZE_pos, of "length rest"] assms by simp

lemma stream_loop_chunks:
  "body_chunks (stream_loop None k rest) =
     map (\<lambda>i. take FILE_CHUNK_SIZE (drop (i * FILE_CHUNK_SIZE) rest))
       [0 ..< (length rest + FILE_CHUNK_SIZE - 1) div FILE_CHUNK_SIZE]"
proof (induction "length rest" arbitrary: k rest rule: less_induct)
  case less
  show ?case
  proof (cases "rest = []")
    case True
    then show ?thesis
      using FILE_CHUNK_SIZE_pos by (simp add: stream_loop_Nil)
  next
    case False
    let ?m = "(length (drop FILE_CHUNK_SIZE rest) + FILE_CHUNK_SIZE - 1) div FILE_CHUNK_SIZE"
    from False have "length (drop FILE_CHUNK_SIZE rest) < length rest"
      using FILE_CHUNK_SIZE_pos by simp
    then have IH: "body_chunks (stream_loop None (Suc k) (drop FILE_CHUNK_SIZE rest)) =
       map (\<lambda>i. take FILE_CHUNK_SIZE (drop (i * FILE_CHUNK_SIZE) (drop FILE_CHUNK_SIZE rest)))
         [0 ..< ?m]"
      by (rule less)
    have "body_chunks (stream_loop None k rest)
        = take FILE_CHUNK_SIZE rest
          # map (\<lambda>i. take FILE_CHUNK_SIZE (drop (Suc i * FILE_CHUNK_SIZE) rest)) [0 ..< ?m]"
      using False IH by (simp add: stream_loop_step add.commute)
    also have "\<dots> = map (\<lambda>i. take FILE_CHUNK_SIZE (drop (i * FILE_CHUNK_SIZE) rest)) [0 ..< Suc ?m]"
      by (simp add: upt_conv_Cons map_Suc_upt [symmetric] del: upt_Suc)
    finally show ?thesis
      unfolding chunk_count_step [OF False] .
  qed
qed

lemma serve_file_content_ok:
  assumes "f_is_file f" "f_open_ok f"
  shows "status_of (serve_file_content f None) = Some OK"
    and "Send_Header ''Content-type'' ''text/plain'' \<in> set (serve_file_content f None)"
    and "body_chunks (serve_file_content f None) = body_chunks (stream_loop None 0 (f_data f))"
  using assms by (simp_all add: serve_file_content_def)

text \<open>
  C8: a content-fetch request (\<open>action=get_content\<close>, no \<open>render=html\<close>) for a regular,
  readable file whose client stays connected is answered with status 200 and
  \<open>text/plain\<close>; the chunks written to the body, concatenated, are the bytes of the
  file, and chunk \<open>i\<close> is the 16 KiB of the file from offset \<open>i * 16 KiB\<close> (the last
  one shorter when the size is no multiple). This holds for every size, the sizes
  \<open>0\<close>, \<open>C - 1\<close>, \<open>C\<close>, \<open>C + 1\<close> and \<open>10 * C\<close> among them.
\<close>

theorem streaming_completion:
  assumes "f_is_file f" and "f_open_ok f"
    and "first_value (query_components rq) ''action'' = Some ''get_content''"
    and "first_value (query_components rq) ''render'' \<noteq> Some ''html''"
  shows "let ev = handle_text_file srv rq f None;
             chunks = body_chunks ev
         in status_of ev = Some 200
          \<and> Send_Header ''Content-type'' ''text/plain'' \<in> set ev
          \<and> concat chunks = f_data f
          \<and> chunks = map (\<lambda>i. take (16 * 1024) (drop (i * (16 * 1024)) (f_data f)))
                         [0 ..< (length (f_data f) + 16 * 1024 - 1) div (16 * 1024)]"
proof -
  have ev: "handle_text_file srv rq f None = serve_file_content f None"
    using assms(3,4) by (simp add: handle_text_file_def)
  have C: "16 * 1024 = FILE_CHUNK_SIZE" by (simp add: FILE_CHUNK_SIZE_def)
  note ok = serve_file_content_ok [OF assms(1,2)]
  have st: "status_of (serve_file_content f None) = Some 200"
    using ok(1) by (simp add: OK_def)
  have c1: "concat (body_chunks (serve_file_content f None)) = f_data f"
    unfolding ok(3) by (rule stream_loop_concat)
  have c2: "body_chunks (serve_file_content f None) =
     map (\<lambda>i. take FILE_CHUNK_SIZE (drop (i * FILE_CHUNK_SIZE) (f_data f)))
       [0 ..< (length (f_data f) + FILE_CHUNK_SIZE - 1) div FILE_CHUNK_SIZE]"
    unfolding ok(3) by (rule stream_loop_chunks)
  show ?thesis
    unfolding Let_def ev C using st ok(2) c1 c2 by blast
qed

theorem streaming_completion_witness:
  "let f = \<lparr> f_is_file = True, f_open_ok = True, f_data = ''hello'', f_utf8_ok = True \<rparr>;
       rq = \<lparr> query_components = [''action'' \<mapsto> (''get_content'', [])], suffix = ''.txt'',
              file_name = ''a.txt'', raw_url = ''/a.txt'' \<rparr>;
       srv = \<lparr> MARKDOWN_AVAILABLE = True, markdown_html = (\<lambda>s. Some s),
               code_view_frame = (\<lambda>n u. Some n), markdown_viewer = (\<lambda>n u. Some n) \<rparr>
   in f_is_file f \<and> f_open_ok f
    \<and> first_value (query_components rq) ''action'' = Some ''get_content''
    \<and> first_value (query_components rq) ''render'' \<noteq> Some ''html''
    \<and> concat (body_chunks (handle_text_file srv rq f None)) = ''hello''"
  using streaming_completion
    [of "\<lparr> f_is_file = True, f_open_ok = True, f_data = ''hello'', f_utf8_ok = True \<rparr>"
        "\<lparr> query_components = [''action'' \<mapsto> (''get_content'', [])], suffix = ''.txt'',
              file_name = ''a.txt'', raw_url = ''/a.txt'' \<rparr>"
        "\<lparr> MARKDOWN_AVAILABLE = True, markdown_html = (\<lambda>s. Some s),
               code_view_frame = (\<lambda>n u. Some n), markdown_viewer = (\<lambda>n u. Some n) \<rparr>"]
  by (simp add: first_value_def Let_def)



text \<open>
  C10: a content-fetch request with \<open>render=html\<close> for a file whose suffix is not
  \<open>.md\<close> is served by \<open>_serve_file_content\<close>, exactly as the same request without
  \<open>render=html\<close>: status 200 and \<open>text/plain\<close> for a regular file, the raw bytes of the
  file for a readable one whose client stays connected.
\<close>

theorem render_non_markdown_falls_through:
  assumes "first_value (query_components rq) ''action'' = Some ''get_content''"
    and "first_value (query_components rq) ''render'' = Some ''html''"
    and "lower (suffix rq) \<noteq> ''.md''"
  shows "handle_text_file srv rq f cl = serve_file_content f cl
       \<and> handle_text_file srv rq f cl =
           handle_text_file srv (rq\<lparr>query_components := (query_components rq)(''render'' := None)\<rparr>) f cl
       \<and> (f_is_file f \<longrightarrow> status_of (handle_text_file srv rq f cl) = Some 200
             \<and> Send_Header ''Content-type'' ''text/plain'' \<in> set (handle_text_file srv rq f cl))
       \<and> (f_is_file f \<and> f_open_ok f \<longrightarrow>
            concat (body_chunks (handle_text_file srv rq f None)) = f_data f)"
proof -
  have ev: "handle_text_file srv rq f c = serve_file_content f c" for c
    using assms by (simp add: handle_text_file_def)
  have ev': "handle_text_file srv (rq\<lparr>query_components := (query_components rq)(''render'' := None)\<rparr>) f cl
      = serve_file_content f cl"
    using assms by (simp add: handle_text_file_def first_value_def)
  show ?thesis
    unfolding ev ev'
    by (auto simp: serve_file_content_def stream_loop_concat OK_def)
qed


theorem render_non_markdown_falls_through_witness:
  "let srv = \<lparr> MARKDOWN_AVAILABLE = True, markdown_html = (\<lambda>s. Some s),
               code_view_frame = (\<lambda>n u. Some n), markdown_viewer = (\<lambda>n u. Some n) \<rparr>;
       rq = \<lparr> query_components =
                [''action'' \<mapsto> (''get_content'', []), ''render'' \<mapsto> (''html'', [])],
              suffix = ''.txt'', file_name = ''notes.txt'', raw_url = ''/notes.txt'' \<rparr>;
       f = \<lparr> f_is_file = True, f_open_ok = True, f_data = ''<b>x</b>'', f_utf8_ok = True \<rparr>
   in first_value (query_components rq) ''action'' = Some ''get_content''
    \<and> first_value (query_components rq) ''render'' = Some ''html''
    \<and> lower (suffix rq) \<noteq> ''.md''
    \<and> f_is_file f \<and> f_open_ok f
    \<and> handle_text_file srv rq f None = serve_file_content f None
    \<and> status_of (handle_text_file srv rq f None) = Some 200
    \<and> concat (body_chunks (handle_text_file srv rq f None)) = ''<b>x</b>''"
proof -
  define srv where "srv = \<lparr> MARKDOWN_AVAILABLE = True, markdown_html = (\<lambda>s::string. Some s),
               code_view_frame = (\<lambda>(n::string) (u::string). Some n),
               markdown_viewer = (\<lambda>(n::string) (u::string). Some n) \<rparr>"
  define rq where "rq = \<lparr> query_components =
                [''action'' \<mapsto> (''get_content'', []), ''render'' \<mapsto> (''html'', [])],
              suffix = ''.txt'', file_name = ''notes.txt'', raw_url = ''/notes.txt'' \<rparr>"
  define f where "f = \<lparr> f_is_file = True, f_open_ok = True, f_data = ''<b>x</b>'', f_utf8_ok = True \<rparr>"
  have h1: "first_value (query_components rq) ''action'' = Some ''get_content''"
    by (simp add: rq_def first_value_def)
  have h2: "first_value (query_components rq) ''render'' = Some ''html''"
    by (simp add: rq_def first_value_def)
  have h3: "lower (suffix rq) \<noteq> ''.md''"
    by (simp add: rq_def lower_def lower_char_def)
  have h4: "f_is_file f" "f_open_ok f" "f_data f = ''<b>x</b>''" by (simp_all add: f_def)
  from render_non_markdown_falls_through [OF h1 h2 h3, of srv f None] h1 h2 h3 h4
  have "first_value (query_components rq) ''action'' = Some ''get_content''
    \<and> first_value (query_components rq) ''render'' = Some ''html''
    \<and> lower (suffix rq) \<noteq> ''.md''
    \<and> f_is_file f \<and> f_open_ok f
    \<and> handle_text_file srv rq f None = serve_file_content f None
    \<and> status_of (handle_text_file srv rq f None) = Some 200
    \<and> concat (body_chunks (handle_text_file srv rq f None)) = ''<b>x</b>''"
    by auto
  then show ?thesis unfolding Let_def srv_def rq_def f_def .
qed

section \<open>Properties of the archive builder\<close>



lemma writing_nonempty: "writing s tmp ms n \<noteq> []"
  by (simp add: writing_def)

lemma last_writing: "last (writing s tmp ms n) = s(tmp \<mapsto> Archive (take n ms) False)"
  by (simp add: writing_def last_map del: upt_Suc)




text \<open>
  C6: when something already exists at \<open>zip_name\<close>, \<open>create_zip\<close> returns \<open>True\<close> at
  once: the file system goes through no other state than the one at the call, whatever
  the files under the source directory are now.
\<close>

theorem create_zip_existing_target:
  "s zip_name \<noteq> None \<Longrightarrow> create_zip run s zip_name = ([s], True)"
  by (simp add: create_zip_def)

theorem create_zip_existing_target_witness:
  "[''/srv/d.zip'' \<mapsto> Other] ''/srv/d.zip'' \<noteq> None
   \<and> create_zip \<lparr> files = [(''new.txt'', ''added later'')], fault = No_Fault,
                   unlink_fails = False, pid = 7 \<rparr>
        [''/srv/d.zip'' \<mapsto> Other] ''/srv/d.zip''
      = ([[''/srv/d.zip'' \<mapsto> Other]], True)"
proof -
  have h: "[''/srv/d.zip'' \<mapsto> Other] ''/srv/d.zip'' \<noteq> None" by simp
  from create_zip_existing_target
      [of "[''/srv/d.zip'' \<mapsto> Other]" "''/srv/d.zip''"
          "\<lparr> files = [(''new.txt'', ''added later'')], fault = No_Fault,
             unlink_fails = False, pid = 7 \<rparr>", OF h] h
  show ?thesis by blast
qed





section \<open>Properties of the size cache\<close>

text \<open>
  Within one handler instance the second call is a hit: same value, no walk.
\<close>

lemma size_cache_same_handler_hit:
  assumes "get_directory_size tv h p st = (v, st')"
  shows "fst (get_directory_size tv h p st') = v
       \<and> walks (snd (get_directory_size tv h p st')) = walks st'"
proof (cases "stat_mtime tv p")
  case None
  with assms show ?thesis by (simp add: get_directory_size_def)
next
  case (Some m)
  let ?k = "(h, resolved tv p, m)"
  from assms Some have "map_of (lru st') ?k = Some v"
    by (auto simp: get_directory_size_def cached_get_directory_size_def Let_def
        split: option.splits)
  with Some show ?thesis
    by (simp add: get_directory_size_def cached_get_directory_size_def Let_def)
qed

text \<open>
  C4: two consecutive calls of \<open>get_directory_size\<close> on an unchanged directory return
  the same value, and the second makes no recursive walk, whichever handler instances
  make the calls. The code at two calls by two handler instances (1 and 2), from an
  empty cache: both return 4096, and the second call walks the directory again, since
  its key differs in \<open>self\<close>.
\<close>

theorem size_cache_second_handler_walks_again:
  "let tv = \<lparr> stat_mtime = (\<lambda>p. Some 100), resolved = (\<lambda>p. p), walk_total = (\<lambda>p. 4096) \<rparr>;
       st0 = \<lparr> lru = [], walks = 0 \<rparr>;
       r1 = get_directory_size tv 1 ''/srv/d'' st0;
       r2 = get_directory_size tv 2 ''/srv/d'' (snd r1)
   in fst r1 = 4096 \<and> fst r2 = 4096 \<and> walks (snd r1) = 1 \<and> walks (snd r2) = 2"
  by (simp add: get_directory_size_def cached_get_directory_size_def Let_def)

section \<open>Properties of the rendered page\<close>

subsection \<open>Pages without markup from the input\<close>

lemma input_markup_append [simp]:
  "input_markup (a @ b) \<longleftrightarrow> input_markup a \<or> input_markup b"
  by (simp add: input_markup_def)

lemma input_markup_Nil [simp]: "\<not> input_markup []"
  by (simp add: input_markup_def)

lemma input_markup_fixed [simp]: "\<not> input_markup (fixed s)"
  by (simp add: input_markup_def fixed_def list_ex_iff)

lemma input_markup_concat:
  "(\<And>x. x \<in> set xs \<Longrightarrow> \<not> input_markup (f x)) \<Longrightarrow> \<not> input_markup (concat (map f xs))"
  by (induction xs) auto

lemma plain_Nil [simp]: "plain [] = []"
  by (simp add: plain_def)

lemma plain_append [simp]: "plain (a @ b) = plain a @ plain b"
  by (simp add: plain_def)

lemma plain_fixed [simp]: "plain (fixed s) = s"
  by (simp add: plain_def fixed_def comp_def)

lemma plain_mark [simp]: "plain (mark w s) = s"
  by (simp add: plain_def mark_def comp_def)

lemma plain_concat: "plain (concat hs) = concat (map plain hs)"
  by (induction hs) (simp_all add: plain_def)

text \<open>A page none of whose characters is \<open><\<close>, \<open>>\<close> or a quote has no markup at all.\<close>

lemma input_markup_plain:
  assumes "CHR ''<'' \<notin> set (plain h)" and "CHR ''>'' \<notin> set (plain h)"
    and \<open>CHR ''"'' \<notin> set (plain h)\<close> and "CHR 0x27 \<notin> set (plain h)"
  shows "\<not> input_markup h"
proof
  assume "input_markup h"
  then obtain c w where "(c, w) \<in> set h" and "unsafe (c, w)"
    by (auto simp: input_markup_def list_ex_iff)
  then have "c \<in> set (plain h)" and \<open>c = CHR ''<'' \<or> c = CHR ''>'' \<or> c = CHR ''"'' \<or> c = CHR 0x27\<close>
    by (force simp: plain_def, auto)
  with assms show False by auto
qed

text \<open>
  A page without \<open><\<close> and \<open>>\<close> whose characters do not come from a link name or from
  the query string has no markup either: its quotes are text.
\<close>

lemma input_markup_text:
  assumes "CHR ''<'' \<notin> set (plain h)" and "CHR ''>'' \<notin> set (plain h)"
    and "\<And>w. w \<in> snd ` set h \<Longrightarrow> \<not> in_attribute w"
  shows "\<not> input_markup h"
proof
  assume "input_markup h"
  then obtain c w where m: "(c, w) \<in> set h" and u: "unsafe (c, w)"
    by (auto simp: input_markup_def list_ex_iff)
  from m have "c \<in> set (plain h)" and "w \<in> snd ` set h"
    by (force simp: plain_def)+
  with assms u show False by auto
qed

subsection \<open>\<open>html.escape\<close>\<close>

lemma replace_chars:
  "set (plain (replace c r h)) \<subseteq> (set (plain h) - {c}) \<union> set r"
  by (auto simp: replace_def plain_def split: if_splits)

lemma replace_origins: "snd ` set (replace c r h) \<subseteq> snd ` set h"
  by (auto simp: replace_def split: if_splits) force+

lemma replace_keeps_out:
  "x \<notin> set r \<Longrightarrow> x \<notin> set (plain h) \<Longrightarrow> x \<notin> set (plain (replace c r h))"
  using replace_chars [of c r h] by auto

lemma replace_kills: "c \<notin> set r \<Longrightarrow> c \<notin> set (plain (replace c r h))"
  using replace_chars [of c r h] by auto

lemma escape_origins: "snd ` set (escape q h) \<subseteq> snd ` set h"
proof -
  have "snd ` set (replace c5 r5 (replace c4 r4 (replace c3 r3 (replace c2 r2 (replace c1 r1 h)))))
      \<subseteq> snd ` set h" for c1 c2 c3 c4 c5 r1 r2 r3 r4 r5
    by (meson replace_origins subset_trans)
  moreover have "snd ` set (replace c3 r3 (replace c2 r2 (replace c1 r1 h))) \<subseteq> snd ` set h"
    for c1 c2 c3 r1 r2 r3
    by (meson replace_origins subset_trans)
  ultimately show ?thesis by (simp add: escape_def Let_def)
qed

lemma escape_no_lt: "CHR ''<'' \<notin> set (plain (escape q h))"
proof -
  let ?s1 = "replace (CHR ''&'') ''&amp;'' h"
  let ?s2 = "replace (CHR ''<'') ''&lt;'' ?s1"
  let ?s3 = "replace (CHR ''>'') ''&gt;'' ?s2"
  let ?s4 = "replace (CHR 0x22) ''&quot;'' ?s3"
  let ?s5 = "replace (CHR 0x27) ''&#x27;'' ?s4"
  have 2: "CHR ''<'' \<notin> set (plain ?s2)" by (rule replace_kills) simp
  have 3: "CHR ''<'' \<notin> set (plain ?s3)" by (rule replace_keeps_out [OF _ 2]) simp
  have 4: "CHR ''<'' \<notin> set (plain ?s4)" by (rule replace_keeps_out [OF _ 3]) simp
  have 5: "CHR ''<'' \<notin> set (plain ?s5)" by (rule replace_keeps_out [OF _ 4]) simp
  show ?thesis using 3 5 by (simp add: escape_def Let_def)
qed

lemma escape_no_gt: "CHR ''>'' \<notin> set (plain (escape q h))"
proof -
  let ?s1 = "replace (CHR ''&'') ''&amp;'' h"
  let ?s2 = "replace (CHR ''<'') ''&lt;'' ?s1"
  let ?s3 = "replace (CHR ''>'') ''&gt;'' ?s2"
  let ?s4 = "replace (CHR 0x22) ''&quot;'' ?s3"
  let ?s5 = "replace (CHR 0x27) ''&#x27;'' ?s4"
  have 3: "CHR ''>'' \<notin> set (plain ?s3)" by (rule replace_kills) simp
  have 4: "CHR ''>'' \<notin> set (plain ?s4)" by (rule replace_keeps_out [OF _ 3]) simp
  have 5: "CHR ''>'' \<notin> set (plain ?s5)" by (rule replace_keeps_out [OF _ 4]) simp
  show ?thesis using 3 5 by (simp add: escape_def Let_def)
qed

lemma escape_no_quotes:
  \<open>CHR ''"'' \<notin> set (plain (escape True h))\<close> "CHR 0x27 \<notin> set (plain (escape True h))"
proof -
  let ?s3 = "replace (CHR ''>'') ''&gt;'' (replace (CHR ''<'') ''&lt;''
      (replace (CHR ''&'') ''&amp;'' h))"
  let ?s4 = "replace (CHR 0x22) ''&quot;'' ?s3"
  let ?s5 = "replace (CHR 0x27) ''&#x27;'' ?s4"
  have 4: "CHR 0x22 \<notin> set (plain ?s4)" by (rule replace_kills) simp
  have 5: "CHR 0x22 \<notin> set (plain ?s5)" by (rule replace_keeps_out [OF _ 4]) simp
  have 6: "CHR 0x27 \<notin> set (plain ?s5)" by (rule replace_kills) simp
  show \<open>CHR ''"'' \<notin> set (plain (escape True h))\<close> using 5 by (simp add: escape_def Let_def)
  show "CHR 0x27 \<notin> set (plain (escape True h))" using 6 by (simp add: escape_def Let_def)
qed

lemma input_markup_escape_attribute [simp]: "\<not> input_markup (escape True h)"
  by (intro input_markup_plain escape_no_lt escape_no_gt escape_no_quotes)

lemma input_markup_escape_text:
  "\<not> input_markup (escape False (mark Display_Name s))"
proof (rule input_markup_text)
  fix w assume "w \<in> snd ` set (escape False (mark Display_Name s))"
  with escape_origins [of False "mark Display_Name s"]
  have "w \<in> snd ` set (mark Display_Name s)" by blast
  then have "w = Display_Name" by (auto simp: mark_def)
  then show "\<not> in_attribute w" by simp
qed (rule escape_no_lt, rule escape_no_gt)

subsection \<open>Percent-encoding and numerals\<close>

text \<open>The four characters that \<open>html.escape\<close> replaces besides \<open>&\<close>, by their codes.\<close>

lemma markup_codes:
  "(of_char (CHR ''<'') :: nat) = 60" "(of_char (CHR ''>'') :: nat) = 62"
  "(of_char (CHR 0x22) :: nat) = 34" "(of_char (CHR 0x27) :: nat) = 39"
  by simp_all

lemma not_markup_char:
  assumes "(of_char x :: nat) \<notin> {34, 39, 60, 62}"
  shows "x \<noteq> CHR ''<''" "x \<noteq> CHR ''>''" "x \<noteq> CHR 0x22" "x \<noteq> CHR 0x27"
  using assms by auto

lemma hex_digit_code:
  assumes "d < 16"
  shows "(of_char (hex_digit d) :: nat) \<notin> {34, 39, 60, 62}"
proof -
  have "(of_char (hex_digit d) :: nat) = (if d < 10 then 48 + d else 55 + d)"
    using assms by (simp add: hex_digit_def of_char_of)
  then show ?thesis using assms by (auto split: if_splits)
qed

lemma always_safe_code: "always_safe c \<Longrightarrow> (of_char c :: nat) \<notin> {34, 39, 60, 62}"
  by (auto simp: always_safe_def less_eq_char_def)

lemma quote_char_code:
  assumes "x \<in> set (if always_safe c \<or> c = CHR ''/'' then [c]
               else [CHR ''%'', hex_digit (of_char c div 16), hex_digit (of_char c mod 16)])"
  shows "(of_char x :: nat) \<notin> {34, 39, 60, 62}"
proof (cases "always_safe c \<or> c = CHR ''/''")
  case True
  with assms have "x = c" by simp
  with True always_safe_code [of c] show ?thesis by auto
next
  case False
  have "(of_char c :: nat) < 256" by (rule nat_of_char_less_256)
  then have d: "(of_char c :: nat) div 16 < 16" by arith
  have m: "(of_char c :: nat) mod 16 < 16" by simp
  from False assms
  have "x = CHR ''%'' \<or> x = hex_digit (of_char c div 16) \<or> x = hex_digit (of_char c mod 16)"
    by simp
  with hex_digit_code [OF d] hex_digit_code [OF m] show ?thesis by auto
qed

lemma quote_code:
  "x \<in> set (plain (quote h)) \<Longrightarrow> (of_char x :: nat) \<notin> {34, 39, 60, 62}"
proof (induction h)
  case Nil
  then show ?case by (simp add: quote_def plain_def)
next
  case (Cons a h)
  obtain c w where a: "a = (c, w)" by (cases a)
  have "plain (quote (a # h)) =
      (if always_safe c \<or> c = CHR ''/'' then [c]
       else [CHR ''%'', hex_digit (of_char c div 16), hex_digit (of_char c mod 16)])
      @ plain (quote h)"
    by (simp add: quote_def plain_def a comp_def)
  with Cons.prems have
    "x \<in> set (if always_safe c \<or> c = CHR ''/'' then [c]
       else [CHR ''%'', hex_digit (of_char c div 16), hex_digit (of_char c mod 16)])
     \<or> x \<in> set (plain (quote h))"
    by (simp only: set_append Un_iff)
  then show ?case using quote_char_code [of x c] Cons.IH by blast
qed

lemma quote_chars:
  "CHR ''<'' \<notin> set (plain (quote h))" "CHR ''>'' \<notin> set (plain (quote h))"
  "CHR 0x22 \<notin> set (plain (quote h))" "CHR 0x27 \<notin> set (plain (quote h))"
  using quote_code [of _ h] by (fastforce simp only: markup_codes)+

lemma input_markup_quote [simp]: "\<not> input_markup (quote h)"
  by (intro input_markup_plain quote_chars)

lemma digit_char_code:
  assumes "d < 10"
  shows "(of_char (digit_char d) :: nat) \<notin> {34, 39, 60, 62}"
proof -
  have "(of_char (digit_char d) :: nat) = 48 + d"
    using assms by (simp add: digit_char_def of_char_of)
  then show ?thesis using assms by auto
qed

declare str_nat.simps [simp del]

lemma str_nat_code: "x \<in> set (str_nat n) \<Longrightarrow> (of_char x :: nat) \<notin> {34, 39, 60, 62}"
proof (induction n arbitrary: x rule: str_nat.induct)
  case (1 n)
  show ?case
  proof (cases "n < 10")
    case True
    then have "set (str_nat n) = {digit_char n}" by (subst str_nat.simps) simp
    with "1.prems" have "x = digit_char n" by blast
    with True show ?thesis using digit_char_code [of n] by simp
  next
    case False
    then have "set (str_nat n) = set (str_nat (n div 10)) \<union> {digit_char (n mod 10)}"
      by (subst str_nat.simps) simp
    with "1.prems" have "x \<in> set (str_nat (n div 10)) \<or> x = digit_char (n mod 10)"
      by blast
    moreover have "n mod 10 < 10" by simp
    ultimately show ?thesis
      using "1.IH" [OF False, of x] digit_char_code [of "n mod 10"] by auto
  qed
qed

lemma str_int_code: "x \<in> set (str_int i) \<Longrightarrow> (of_char x :: nat) \<notin> {34, 39, 60, 62}"
proof (cases "i < 0")
  case True
  assume "x \<in> set (str_int i)"
  with True have "x = CHR ''-'' \<or> x \<in> set (str_nat (nat (- i)))" by (simp add: str_int_def)
  then show ?thesis using str_nat_code [of x "nat (- i)"] by auto
next
  case False
  assume "x \<in> set (str_int i)"
  with False have "x \<in> set (str_nat (nat i))" by (simp add: str_int_def)
  then show ?thesis by (rule str_nat_code)
qed

lemma str_int_chars:
  "CHR ''<'' \<notin> set (str_int i)" "CHR ''>'' \<notin> set (str_int i)"
  "CHR 0x22 \<notin> set (str_int i)" "CHR 0x27 \<notin> set (str_int i)"
  using str_int_code [of _ i] by (fastforce simp only: markup_codes)+

lemma input_markup_str_int [simp]: "\<not> input_markup (mark w (str_int i))"
  by (rule input_markup_plain) (simp_all add: str_int_chars)

subsection \<open>The page has no markup from the input\<close>

lemma input_markup_page_link:
  "\<not> input_markup label \<Longrightarrow> \<not> input_markup (page_link p search label)"
  by (simp add: page_link_def)

lemma input_markup_page_item:
  \<open>\<not> input_markup
     (if p = page
      then fixed ''<span class="current">'' @ mark Query (str_int p) @ fixed ''</span>''
      else page_link p search (mark Query (str_int p)))\<close>
  by (simp add: input_markup_page_link)

lemma input_markup_pagination:
  "\<not> input_markup (generate_pagination page total_pages search)"
  unfolding generate_pagination_def Let_def
  by (simp add: input_markup_page_link input_markup_concat input_markup_page_item
      del: upto.simps)

lemma input_markup_directory_entry:
  "\<not> input_markup (generate_directory_entry l (mark Display_Name d) (fixed a) (fixed b))"
  by (simp add: generate_directory_entry_def Let_def input_markup_escape_text)

lemma input_markup_file_entry:
  "\<not> input_markup (generate_file_entry l (mark Display_Name d) (fixed a) (fixed b))"
  by (simp add: generate_file_entry_def Let_def input_markup_escape_text)

lemma input_markup_row: "\<not> input_markup (generate_row info name)"
  by (simp add: generate_row_def Let_def input_markup_directory_entry input_markup_file_entry)

lemma input_markup_html_list:
  "\<not> input_markup (generate_html_list enc info entries page total_pages search)"
  unfolding generate_html_list_def DIRECTORY_LIST_TEMPLATE_def DIRECTORY_LIST_FOOTER_def
  by (simp add: input_markup_pagination input_markup_row input_markup_concat)

subsection \<open>No script tag in the page\<close>

lemma follows_append: "follows cs \<Longrightarrow> follows (cs @ b)"
  by (induction cs rule: follows.induct) (auto, (cases b; simp)+)

lemma tags_closed_append: "tags_closed a \<Longrightarrow> tags_closed b \<Longrightarrow> tags_closed (a @ b)"
  by (induction a) (auto simp: follows_append)

lemma tags_closed_no_lt: "CHR ''<'' \<notin> set s \<Longrightarrow> tags_closed s"
  by (induction s) auto

lemma tags_closed_concat:
  "(\<And>x. x \<in> set xs \<Longrightarrow> tags_closed (f x)) \<Longrightarrow> tags_closed (concat (map f xs))"
  by (induction xs) (auto simp: tags_closed_append)

lemma follows_script: "\<not> follows (''script'' @ r)"
  by simp

lemma tags_closed_no_script: "tags_closed s \<Longrightarrow> \<not> sublist ''<script'' s"
proof (induction s)
  case Nil
  then show ?case by simp
next
  case (Cons c cs)
  have "\<not> prefix ''<script'' (c # cs)"
  proof
    assume "prefix ''<script'' (c # cs)"
    then obtain r where "c # cs = ''<script'' @ r" by (auto simp: prefix_def)
    then have "c = CHR ''<''" "cs = ''script'' @ r" by simp_all
    with Cons.prems show False by simp
  qed
  with Cons show ?case by (simp add: sublist_Cons_right)
qed

lemma tags_closed_template_0: "tags_closed DIRECTORY_LIST_TEMPLATE_0"
  by (simp add: DIRECTORY_LIST_TEMPLATE_0_def)

lemma tags_closed_template_1: "tags_closed DIRECTORY_LIST_TEMPLATE_1"
  by (simp add: DIRECTORY_LIST_TEMPLATE_1_def)

lemma tags_closed_template_3: "tags_closed DIRECTORY_LIST_TEMPLATE_3"
  by (simp add: DIRECTORY_LIST_TEMPLATE_3_def)

lemma tags_closed_template_4: "tags_closed DIRECTORY_LIST_TEMPLATE_4"
  by (simp add: DIRECTORY_LIST_TEMPLATE_4_def)

lemma tags_closed_footer_0: "tags_closed DIRECTORY_LIST_FOOTER_0"
  by (simp add: DIRECTORY_LIST_FOOTER_0_def)

lemma tags_closed_footer_1: "tags_closed DIRECTORY_LIST_FOOTER_1"
  by (simp add: DIRECTORY_LIST_FOOTER_1_def)

lemma tags_closed_template_2: "tags_closed DIRECTORY_LIST_TEMPLATE_2"
  by (simp add: DIRECTORY_LIST_TEMPLATE_2_def)

lemma tags_closed_escape: "tags_closed (plain (escape q h))"
  by (rule tags_closed_no_lt) (rule escape_no_lt)

lemma tags_closed_quote: "tags_closed (plain (quote h))"
  by (rule tags_closed_no_lt) (rule quote_chars)

lemma tags_closed_str_int: "tags_closed (str_int i)"
  by (rule tags_closed_no_lt) (rule str_int_chars)

lemma tags_closed_page_link:
  "tags_closed (plain label) \<Longrightarrow> tags_closed (plain (page_link p search label))"
  unfolding page_link_def
  by (simp add: tags_closed_append tags_closed_quote tags_closed_str_int)

lemma tags_closed_labels: "tags_closed label_previous" "tags_closed label_next"
  by (simp_all add: label_previous_def label_next_def)

lemma tags_closed_page_item:
  \<open>tags_closed (plain
     (if p = page
      then fixed ''<span class="current">'' @ mark Query (str_int p) @ fixed ''</span>''
      else page_link p search (mark Query (str_int p))))\<close>
  by (simp add: tags_closed_page_link tags_closed_append tags_closed_str_int)

lemma tags_closed_pagination:
  "tags_closed (plain (generate_pagination page total_pages search))"
  unfolding generate_pagination_def Let_def plain_append plain_concat map_map comp_def
  by (intro tags_closed_append tags_closed_concat tags_closed_page_item)
     (simp_all add: tags_closed_page_link tags_closed_labels tags_closed_append
        tags_closed_str_int)

lemma tags_closed_directory_entry:
  assumes "CHR ''<'' \<notin> set a" and "CHR ''<'' \<notin> set b"
  shows "tags_closed (plain (generate_directory_entry l d (fixed a) (fixed b)))"
  unfolding generate_directory_entry_def Let_def plain_append plain_fixed
  by (intro tags_closed_append tags_closed_escape tags_closed_no_lt [OF assms(1)]
        tags_closed_no_lt [OF assms(2)]) simp_all

lemma tags_closed_file_entry:
  assumes "CHR ''<'' \<notin> set a" and "CHR ''<'' \<notin> set b"
  shows "tags_closed (plain (generate_file_entry l d (fixed a) (fixed b)))"
proof -
  have p: \<open>tags_closed (plain
      (if splitext_ext (lower (plain d)) \<in> set previewable_extensions
       then fixed '' <a href="'' @ escape True l
            @ fixed (''" target="_blank">'' @ [CHR 0xE9, CHR 0xA2, CHR 0x84, CHR 0xE8, CHR 0xA7, CHR 0x88] @ ''</a>'')
       else []))\<close>
    by (simp add: tags_closed_append tags_closed_escape)
  show ?thesis
    unfolding generate_file_entry_def Let_def plain_append plain_fixed
    by (intro tags_closed_append tags_closed_escape tags_closed_no_lt [OF assms(1)]
          tags_closed_no_lt [OF assms(2)] p) simp_all
qed

lemma tags_closed_row:
  assumes "CHR ''<'' \<notin> set (e_size_str (info name))"
    and "CHR ''<'' \<notin> set (e_mod_time_str (info name))"
  shows "tags_closed (plain (generate_row info name))"
  unfolding generate_row_def Let_def
  using tags_closed_directory_entry [OF assms] tags_closed_file_entry [OF assms]
  by simp

lemma tags_closed_html_list:
  assumes "CHR ''<'' \<notin> set enc"
    and "\<And>n. n \<in> set entries \<Longrightarrow> CHR ''<'' \<notin> set (e_size_str (info n))
            \<and> CHR ''<'' \<notin> set (e_mod_time_str (info n))"
  shows "tags_closed (plain (generate_html_list enc info entries page total_pages search))"
  unfolding generate_html_list_def DIRECTORY_LIST_TEMPLATE_def DIRECTORY_LIST_FOOTER_def
    plain_append plain_fixed plain_concat map_map comp_def
  by (intro tags_closed_append tags_closed_concat tags_closed_escape tags_closed_pagination
        tags_closed_row tags_closed_template_0 tags_closed_template_1
        tags_closed_template_2 tags_closed_template_3 tags_closed_template_4
        tags_closed_footer_0 tags_closed_footer_1 tags_closed_no_lt [OF assms(1)])
     (use assms(2) in auto)

text \<open>
  C1: in every page that \<open>generate_html_list\<close> renders (for \<open>list_directory\<close> or any
  other caller), no character that comes from the input would be read as markup: none
  that comes from a display name, a link name, the search term or a page number is a raw
  \<open><\<close> or \<open>>\<close>, and none that comes from a link name or from the query string, which
  are written inside attribute values, is a raw quote. The names and the search field
  pass through \<open>html.escape\<close>, the search term of the pagination links through
  \<open>urllib.parse.quote\<close>. When the sizes, the dates and the encoding name hold no \<open><\<close>,
  the page as sent holds no \<open><script\<close> at all, whatever the entries are called, an entry
  named \<open><script>x</script>\<close> included.
\<close>

theorem listing_escapes_input:
  "\<not> input_markup (generate_html_list enc info entries page total_pages search)
   \<and> (CHR ''<'' \<notin> set enc
        \<and> (\<forall>n \<in> set entries. CHR ''<'' \<notin> set (e_size_str (info n))
                \<and> CHR ''<'' \<notin> set (e_mod_time_str (info n)))
      \<longrightarrow> \<not> sublist ''<script''
            (plain (generate_html_list enc info entries page total_pages search)))"
proof (intro conjI impI)
  show "\<not> input_markup (generate_html_list enc info entries page total_pages search)"
    by (rule input_markup_html_list)
next
  assume h: "CHR ''<'' \<notin> set enc
        \<and> (\<forall>n \<in> set entries. CHR ''<'' \<notin> set (e_size_str (info n))
                \<and> CHR ''<'' \<notin> set (e_mod_time_str (info n)))"
  then have "tags_closed (plain (generate_html_list enc info entries page total_pages search))"
    by (intro tags_closed_html_list) auto
  then show "\<not> sublist ''<script''
      (plain (generate_html_list enc info entries page total_pages search))"
    by (rule tags_closed_no_script)
qed

theorem listing_escapes_input_witness:
  \<open>let info = (\<lambda>n. \<lparr> e_is_dir = False, e_size_str = ''12.00 B'',
                       e_mod_time_str = ''2024-01-01 10:00:00'' \<rparr>);
       page = generate_html_list ''utf-8'' info [''<script>x</script>''] 1 1 ''''
   in CHR ''<'' \<notin> set ''utf-8''
    \<and> (\<forall>n \<in> set [''<script>x</script>'']. CHR ''<'' \<notin> set (e_size_str (info n))
            \<and> CHR ''<'' \<notin> set (e_mod_time_str (info n)))
    \<and> \<not> input_markup page
    \<and> \<not> sublist ''<script'' (plain page)
    \<and> prefix ''<li><a href="&lt;script&gt;x&lt;/script&gt;">&lt;script&gt;x&lt;/script&gt;</a>''
         (plain (generate_row info ''<script>x</script>''))\<close>
proof -
  define info :: "string \<Rightarrow> entry_info" where
    "info = (\<lambda>n. \<lparr> e_is_dir = False, e_size_str = ''12.00 B'',
                       e_mod_time_str = ''2024-01-01 10:00:00'' \<rparr>)"
  have h: "CHR ''<'' \<notin> set ''utf-8''
    \<and> (\<forall>n \<in> set [''<script>x</script>'']. CHR ''<'' \<notin> set (e_size_str (info n))
            \<and> CHR ''<'' \<notin> set (e_mod_time_str (info n)))"
    by (simp add: info_def)
  have r: \<open>prefix ''<li><a href="&lt;script&gt;x&lt;/script&gt;">&lt;script&gt;x&lt;/script&gt;</a>''
         (plain (generate_row info ''<script>x</script>''))\<close>
    by (simp add: info_def generate_row_def generate_file_entry_def Let_def escape_def
        replace_def mark_def fixed_def plain_def)
  from listing_escapes_input [of "''utf-8''" info "[''<script>x</script>'']" 1 1 "''''"] h r
  show ?thesis unfolding Let_def info_def [symmetric] by blast
qed



end
